theory Spec2Isabelle
  imports
    Complex_Main
    "HOL-Library.Word"
    "HOL-Library.Char_ord"
    "HOL-Library.List_Lexorder"
begin

unbundle bit_operations_syntax

section \<open>Strings and the library calls of the source\<close>

text \<open>
  A Go string is a sequence of bytes; it is modelled as a \<open>string\<close> (a list of
  \<open>char\<close>, one per byte). The functions of this section stand for the calls the source
  makes into Go's standard library (\<open>strings\<close>, \<open>fmt\<close>, \<open>net/http\<close>); each follows the
  documented behaviour of the call on byte strings.
\<close>

definition byte :: "char \<Rightarrow> nat" where
  "byte c = of_char c"

text \<open>
  \<open>strings.SplitN(s, sep, n)\<close> for a one-byte separator: at most \<open>n\<close> pieces, the last
  one the unsplit remainder; \<open>n = 0\<close> gives no piece at all.
\<close>

fun SplitN :: "string \<Rightarrow> char \<Rightarrow> nat \<Rightarrow> string list" where
  "SplitN s sep 0 = []"
| "SplitN s sep (Suc 0) = [s]"
| "SplitN s sep (Suc (Suc n)) =
     (if sep \<in> set s
      then takeWhile (\<lambda>c. c \<noteq> sep) s # SplitN (tl (dropWhile (\<lambda>c. c \<noteq> sep) s)) sep (Suc n)
      else [s])"

text \<open>
  White space as \<open>fmt\<close> and \<open>unicode.IsSpace\<close> see it: the runes U+0009..U+000D, U+0020,
  U+0085, U+00A0, U+1680, U+2000..U+200A, U+2028, U+2029, U+202F, U+205F and U+3000.
  \<open>space_rune_len s\<close> is the number of bytes of the white-space rune that \<open>s\<close> starts with
  in UTF-8, and 0 when it starts with none.
\<close>

definition space_rune_len :: "string \<Rightarrow> nat" where
  "space_rune_len s =
     (case map byte s of
        [] \<Rightarrow> 0
      | b0 # r0 \<Rightarrow>
          if (9 \<le> b0 \<and> b0 \<le> 13) \<or> b0 = 32 then 1
          else (case r0 of
             [] \<Rightarrow> 0
           | b1 # r1 \<Rightarrow>
               if b0 = 0xC2 \<and> (b1 = 0x85 \<or> b1 = 0xA0) then 2
               else (case r1 of
                  [] \<Rightarrow> 0
                | b2 # r2 \<Rightarrow>
                    if b0 = 0xE1 \<and> b1 = 0x9A \<and> b2 = 0x80 then 3
                    else if b0 = 0xE2 \<and> b1 = 0x80 \<and>
                        ((0x80 \<le> b2 \<and> b2 \<le> 0x8A) \<or> b2 = 0xA8 \<or> b2 = 0xA9 \<or> b2 = 0xAF) then 3
                    else if b0 = 0xE2 \<and> b1 = 0x81 \<and> b2 = 0x9F then 3
                    else if b0 = 0xE3 \<and> b1 = 0x80 \<and> b2 = 0x80 then 3
                    else 0)))"

text \<open>
  The same test at the end of a string, on the reversed bytes (\<open>strings.TrimSpace\<close>
  decodes the last rune from the nearest byte that starts one).
\<close>

definition space_rune_len_rev :: "string \<Rightarrow> nat" where
  "space_rune_len_rev r =
     (if space_rune_len (rev (take 1 r)) = 1 then 1
      else if space_rune_len (rev (take 2 r)) = 2 then 2
      else if space_rune_len (rev (take 3 r)) = 3 then 3
      else 0)"

text \<open>
  \<open>SkipSpace\<close> of \<open>fmt\<close>'s scanner under \<open>Sscanf\<close> (where a newline is not white space):
  it consumes white-space runes, and fails on a newline.
\<close>

function SkipSpace :: "string \<Rightarrow> string option" where
  "SkipSpace s =
     (if s = [] then Some []
      else if hd s = CHR 0x0A then None
      else if space_rune_len s = 0 then Some s
      else SkipSpace (drop (space_rune_len s) s))"
  by pat_completeness auto
termination
  by (relation "measure length") auto

text \<open>
  \<open>strings.Index\<close> and \<open>strings.LastIndex\<close>: the first and the last position where
  \<open>sub\<close> occurs in \<open>s\<close>; Go's \<open>-1\<close> is \<open>None\<close>. \<open>strings.Contains(s, sub)\<close> is
  \<open>Index(s, sub) >= 0\<close>.
\<close>

definition has_prefix :: "string \<Rightarrow> string \<Rightarrow> bool" where
  "has_prefix s sub = (take (length sub) s = sub)"

fun Index :: "string \<Rightarrow> string \<Rightarrow> nat option" where
  "Index [] sub = (if sub = [] then Some 0 else None)"
| "Index (c # cs) sub =
     (if has_prefix (c # cs) sub then Some 0 else map_option Suc (Index cs sub))"

fun LastIndex :: "string \<Rightarrow> string \<Rightarrow> nat option" where
  "LastIndex [] sub = (if sub = [] then Some 0 else None)"
| "LastIndex (c # cs) sub =
     (case LastIndex cs sub of
        Some i \<Rightarrow> Some (Suc i)
      | None \<Rightarrow> if has_prefix (c # cs) sub then Some 0 else None)"

definition Contains :: "string \<Rightarrow> string \<Rightarrow> bool" where
  "Contains s sub = (Index s sub \<noteq> None)"

text \<open>\<open>strings.Count(s, sep)\<close> for a one-byte separator.\<close>

definition Count :: "string \<Rightarrow> char \<Rightarrow> nat" where
  "Count s sep = length (filter (\<lambda>c. c = sep) s)"

text \<open>
  \<open>strings.ToLower\<close>: the letters \<open>A\<close>..\<open>Z\<close> become \<open>a\<close>..\<open>z\<close>. This is Go's result
  on every ASCII string; on letters beyond ASCII Go consults the Unicode tables, which
  are not modelled (such bytes are left as they are). No theorem below depends on
  how \<open>ToLower\<close> treats a byte, except where it is evaluated on ASCII text.
\<close>

definition lower_byte :: "char \<Rightarrow> char" where
  "lower_byte c = (if 65 \<le> byte c \<and> byte c \<le> 90 then char_of (byte c + 32) else c)"

definition ToLower :: "string \<Rightarrow> string" where
  "ToLower s = map lower_byte s"

text \<open>\<open>strings.Join(v, sep)\<close>.\<close>

fun Join :: "string list \<Rightarrow> string \<Rightarrow> string" where
  "Join [] sep = []"
| "Join [x] sep = x"
| "Join (x # y # ys) sep = x @ sep @ Join (y # ys) sep"

text \<open>
  \<open>strings.TrimSpace\<close>: all leading and all trailing white-space runes removed (here
  a newline is white space too).
\<close>

function TrimLeft :: "string \<Rightarrow> string" where
  "TrimLeft s = (if space_rune_len s = 0 then s else TrimLeft (drop (space_rune_len s) s))"
  by pat_completeness auto
termination
proof (relation "measure length")
  fix s :: string
  assume n: "space_rune_len s \<noteq> 0"
  then have "s \<noteq> []" by (auto simp: space_rune_len_def)
  with n show "(drop (space_rune_len s) s, s) \<in> measure length" by simp
qed simp

function TrimRight_rev :: "string \<Rightarrow> string" where
  "TrimRight_rev r =
     (if space_rune_len_rev r = 0 then r else TrimRight_rev (drop (space_rune_len_rev r) r))"
  by pat_completeness auto
termination
proof (relation "measure length")
  fix r :: string
  assume n: "space_rune_len_rev r \<noteq> 0"
  have "space_rune_len_rev [] = 0" by (simp add: space_rune_len_rev_def space_rune_len_def)
  with n have "r \<noteq> []" by auto
  with n show "(drop (space_rune_len_rev r) r, r) \<in> measure length" by simp
qed simp

definition TrimSpace :: "string \<Rightarrow> string" where
  "TrimSpace s = rev (TrimRight_rev (rev (TrimLeft s)))"


definition is_digit :: "char \<Rightarrow> bool" where
  "is_digit c = (48 \<le> byte c \<and> byte c \<le> 57)"

definition digits_val :: "string \<Rightarrow> nat" where
  "digits_val ds = foldl (\<lambda>acc c. 10 * acc + (byte c - 48)) 0 ds"

text \<open>
  \<open>fmt.Sscanf(p, "%d", &v)\<close> with \<open>v\<close> an \<open>int\<close> variable that holds 0 before the call,
  as at both call sites of the source, which ignore the error Sscanf returns:
  \<open>Sscanf_d p\<close> is the value of \<open>v\<close> after the call. The scanner skips white space,
  accepts one sign, takes the longest run of decimal digits, and converts it with
  \<open>strconv.ParseInt(tok, 10, 64)\<close>; input after the digits is left unread. On any
  failure (a newline in the leading white space, no digit, a value outside the 64-bit
  range of \<open>int\<close>) nothing is stored and \<open>v\<close> is still 0.
\<close>

definition Sscanf_d :: "string \<Rightarrow> int" where
  "Sscanf_d p =
     (case SkipSpace p of
        None \<Rightarrow> 0
      | Some t \<Rightarrow>
          (let neg = (t \<noteq> [] \<and> hd t = CHR ''-'');
               signed = (t \<noteq> [] \<and> (hd t = CHR ''-'' \<or> hd t = CHR ''+''));
               ds = takeWhile is_digit (if signed then tl t else t);
               v = int (digits_val ds)
           in if ds = [] then 0
              else if neg then (if v > 2 ^ 63 then 0 else - v)
              else (if v \<ge> 2 ^ 63 then 0 else v)))"

section \<open>IP addresses and CIDR blocks (ip.go)\<close>

text \<open>
  The loop of \<open>ipToUint32\<close> over the four parts: an octet outside 0..255 returns 0
  at once, otherwise the octet is shifted into the 32-bit result.
\<close>

fun ipToUint32_loop :: "string list \<Rightarrow> 32 word \<Rightarrow> 32 word" where
  "ipToUint32_loop [] result = result"
| "ipToUint32_loop (p # ps) result =
     (let octet = Sscanf_d p
      in if octet < 0 \<or> octet > 255 then 0
         else ipToUint32_loop ps (push_bit 8 result OR word_of_int octet))"

definition ipToUint32 :: "string \<Rightarrow> 32 word" where
  "ipToUint32 ip =
     (let parts = SplitN ip (CHR ''.'') 4
      in if length parts \<noteq> 4 then 0 else ipToUint32_loop parts 0)"

text \<open>
  \<open>cidrContains\<close>: without a slash, string equality; otherwise both addresses are
  converted, an address that converts to 0 never matches, the prefix length is scanned
  and must lie in 0..32, and the two addresses are compared under the mask
  \<open>0xFFFFFFFF << (32 - bits)\<close> (a shift by 32 gives 0 in Go, as \<open>push_bit\<close> does).
\<close>

definition cidrContains :: "string \<Rightarrow> string \<Rightarrow> bool" where
  "cidrContains cidr ip =
     (let parts = SplitN cidr (CHR ''/'') 2
      in if length parts \<noteq> 2 then cidr = ip
         else
           (let cidrIP = ipToUint32 (parts ! 0);
                targetIP = ipToUint32 ip
            in if cidrIP = 0 \<or> targetIP = 0 then False
               else
                 (let bits = Sscanf_d (parts ! 1)
                  in if bits < 0 \<or> bits > 32 then False
                     else
                       (let mask = push_bit (nat (32 - bits)) (0xFFFFFFFF :: 32 word)
                        in (cidrIP AND mask) = (targetIP AND mask)))))"

subsection \<open>Dotted quads as the specification reads them\<close>

text \<open>
  The vocabulary of the specification, for stating the claims about \<open>cidrContains\<close>:
  \<open>dec n\<close> is the decimal numeral of \<open>n\<close> without leading zeros, \<open>quad a b c d\<close> the
  dotted quad \<open>a.b.c.d\<close>, \<open>ip32 a b c d\<close> that address as a 32-bit integer, and
  \<open>top_bits n w\<close> the top \<open>n\<close> bits of a 32-bit integer.
\<close>

fun dec :: "nat \<Rightarrow> string" where
  "dec n = (if n < 10 then [char_of (48 + n)] else dec (n div 10) @ [char_of (48 + n mod 10)])"

definition quad :: "nat \<Rightarrow> nat \<Rightarrow> nat \<Rightarrow> nat \<Rightarrow> string" where
  "quad a b c d = dec a @ ''.'' @ dec b @ ''.'' @ dec c @ ''.'' @ dec d"

definition ip32 :: "nat \<Rightarrow> nat \<Rightarrow> nat \<Rightarrow> nat \<Rightarrow> 32 word" where
  "ip32 a b c d = word_of_nat (a * 2 ^ 24 + b * 2 ^ 16 + c * 2 ^ 8 + d)"

definition top_bits :: "nat \<Rightarrow> 32 word \<Rightarrow> 32 word" where
  "top_bits n w = drop_bit (32 - n) w"

section \<open>Requests and the client address (ip.go)\<close>

text \<open>
  Of a \<open>*http.Request\<close> the source reads the header, the peer address, the method and
  the URL path. \<open>http.Header\<close> is a Go map from header names to their values; it is
  modelled as the list of its entries in the order a \<open>range\<close> loop visits them (Go does
  not fix that order), the keys distinct as in a map.
\<close>

record Request =
  Header :: "(string \<times> string list) list"
  RemoteAddr :: string
  Method :: string
  URL_Path :: string

text \<open>
  \<open>Header.Get(key)\<close>: the first value stored under the canonical form of \<open>key\<close>, or
  the empty string. The canonical form of \<open>"X-Forwarded-For"\<close> and of \<open>"User-Agent"\<close> is
  the key itself; that of \<open>"X-Real-IP"\<close> is \<open>"X-Real-Ip"\<close>. \<open>Header_Get\<close> takes the
  canonical key.
\<close>

definition Header_Get :: "(string \<times> string list) list \<Rightarrow> string \<Rightarrow> string" where
  "Header_Get h key = (case map_of h key of Some (v # vs) \<Rightarrow> v | _ \<Rightarrow> [])"

datatype panic = SliceBoundsOutOfRange | IndexOutOfRange

text \<open>
  \<open>stripPort\<close>. The slice \<open>addr[1:idx]\<close> panics in Go when \<open>idx < 1\<close>, which happens
  when \<open>addr\<close> starts with \<open>"]:"\<close> and holds no later \<open>"]:"\<close>.
\<close>

definition stripPort :: "string \<Rightarrow> panic + string" where
  "stripPort addr =
     (case LastIndex addr '']:'' of
        Some idx \<Rightarrow>
          if 1 \<le> idx \<and> idx \<le> length addr then Inr (take (idx - 1) (drop 1 addr))
          else Inl SliceBoundsOutOfRange
      | None \<Rightarrow>
          if Count addr (CHR '':'') = 1 then Inr (takeWhile (\<lambda>c. c \<noteq> CHR '':'') addr)
          else Inr addr)"

definition extractIP :: "Request \<Rightarrow> panic + string" where
  "extractIP r =
     (let xff = Header_Get (Header r) ''X-Forwarded-For''
      in if xff \<noteq> [] then stripPort (TrimSpace (SplitN xff (CHR '','') 2 ! 0))
         else
           (let xri = Header_Get (Header r) ''X-Real-Ip''
            in if xri \<noteq> [] then stripPort (TrimSpace xri)
               else stripPort (RemoteAddr r)))"

section \<open>The rate limiter\<close>

text \<open>
  Counts and times are Go's 64-bit integers, modelled as \<open>int\<close>: the count grows by one
  per request and the reset time is the clock in milliseconds plus the window length
  (at most \<open>2^63 / 10^6\<close>), so neither leaves the 64-bit range in any run that can
  happen. The clock \<open>time.Now().UnixMilli()\<close> is the argument \<open>now\<close>.
\<close>

record window =
  count :: int
  resetAt :: int

record rateLimiter =
  windows :: "string \<rightharpoonup> window"
  maxRequests :: int
  windowMs :: int

definition isExceeded :: "rateLimiter \<Rightarrow> int \<Rightarrow> string \<Rightarrow> bool \<times> rateLimiter" where
  "isExceeded rl now ip =
     (case windows rl ip of
        None \<Rightarrow>
          (False, rl\<lparr>windows := (windows rl)(ip \<mapsto> \<lparr>count = 1, resetAt = now + windowMs rl\<rparr>)\<rparr>)
      | Some w \<Rightarrow>
          if now \<ge> resetAt w
          then (False, rl\<lparr>windows := (windows rl)(ip \<mapsto> \<lparr>count = 1, resetAt = now + windowMs rl\<rparr>)\<rparr>)
          else (count w + 1 > maxRequests rl,
                rl\<lparr>windows := (windows rl)(ip \<mapsto> w\<lparr>count := count w + 1\<rparr>)\<rparr>))"

definition cleanup :: "rateLimiter \<Rightarrow> int \<Rightarrow> rateLimiter" where
  "cleanup rl now =
     rl\<lparr>windows := (\<lambda>ip. case windows rl ip of
                        None \<Rightarrow> None
                      | Some w \<Rightarrow> if now \<ge> resetAt w then None else Some w)\<rparr>"

text \<open>A run of calls \<open>isExceeded(ip)\<close> at the given clock readings, with their results.\<close>

fun isExceeded_calls :: "rateLimiter \<Rightarrow> string \<Rightarrow> int list \<Rightarrow> bool list \<times> rateLimiter" where
  "isExceeded_calls rl ip [] = ([], rl)"
| "isExceeded_calls rl ip (now # ts) =
     (let (r, rl') = isExceeded rl now ip;
          (rs, rl'') = isExceeded_calls rl' ip ts
      in (r # rs, rl''))"

section \<open>The rule manager\<close>

record HeaderPattern =
  Name :: string
  Pattern :: string
  Weight :: real

record RuleSet =
  Version :: "64 word"
  UpdatedAt :: string
  BlockedUAs :: "string list"
  BlockedIPs :: "string list"
  HeaderPatterns :: "HeaderPattern list"
  AnomalyThreshold :: real

text \<open>
  A compiled \<open>*regexp.Regexp\<close> is used through \<open>MatchString\<close> only, so it is modelled
  as that predicate. The package \<open>regexp\<close> is not part of the repository:
  \<open>regexp.Compile\<close> is the parameter \<open>compile\<close> of the functions below, \<open>None\<close> where
  the pattern does not compile. The weights and the score are Go's \<open>float64\<close>, read as
  real numbers.
\<close>

type_synonym Regexp = "string \<Rightarrow> bool"

record ruleManager =
  current :: RuleSet
  uaLower :: "string list"
  headerRe :: "Regexp option list"
  apiURL :: string
  apiKey :: string

text \<open>
  The two loops of \<open>applyRules\<close>, filling the slices made by \<open>make\<close> (of empty strings,
  and of \<open>nil\<close>) by index; a pattern that does not compile leaves its entry \<open>nil\<close>.
\<close>

fun lower_loop :: "nat \<Rightarrow> string list \<Rightarrow> string list \<Rightarrow> string list" where
  "lower_loop i [] lower = lower"
| "lower_loop i (ua # uas) lower = lower_loop (Suc i) uas (lower[i := ToLower ua])"

fun compile_loop ::
  "(string \<Rightarrow> Regexp option) \<Rightarrow> nat \<Rightarrow> HeaderPattern list \<Rightarrow> Regexp option list \<Rightarrow> Regexp option list"
where
  "compile_loop compile i [] compiled = compiled"
| "compile_loop compile i (hp # hps) compiled =
     (case compile (Pattern hp) of
        None \<Rightarrow> compile_loop compile (Suc i) hps compiled
      | Some re \<Rightarrow> compile_loop compile (Suc i) hps (compiled[i := Some re]))"

definition applyRules :: "(string \<Rightarrow> Regexp option) \<Rightarrow> ruleManager \<Rightarrow> RuleSet \<Rightarrow> ruleManager" where
  "applyRules compile rm rs =
     (let lower = lower_loop 0 (BlockedUAs rs) (replicate (length (BlockedUAs rs)) []);
          compiled = compile_loop compile 0 (HeaderPatterns rs)
                       (replicate (length (HeaderPatterns rs)) None)
      in rm\<lparr>current := rs, uaLower := lower, headerRe := compiled\<rparr>)"

text \<open>
  \<open>syncOnce\<close>: \<open>fetched\<close> is the RuleSet decoded from the answer of the rule endpoint,
  \<open>None\<close> when the request fails, the status is not 200 or the body does not decode
  (the three early returns).
\<close>

definition syncOnce :: "(string \<Rightarrow> Regexp option) \<Rightarrow> ruleManager \<Rightarrow> RuleSet option \<Rightarrow> ruleManager" where
  "syncOnce compile rm fetched =
     (case fetched of
        None \<Rightarrow> rm
      | Some rs \<Rightarrow>
          (let currentVersion = Version (current rm)
           in if Version rs > currentVersion then applyRules compile rm rs else rm))"

fun isBlockedUA_loop :: "string \<Rightarrow> string list \<Rightarrow> bool" where
  "isBlockedUA_loop lower [] = False"
| "isBlockedUA_loop lower (pattern # ps) =
     (if Contains lower pattern then True else isBlockedUA_loop lower ps)"

definition isBlockedUA :: "ruleManager \<Rightarrow> string \<Rightarrow> bool" where
  "isBlockedUA rm ua = (let lower = ToLower ua in isBlockedUA_loop lower (uaLower rm))"

fun isBlockedIP_loop :: "string \<Rightarrow> string list \<Rightarrow> bool" where
  "isBlockedIP_loop ip [] = False"
| "isBlockedIP_loop ip (cidr # cs) =
     (if cidrContains cidr ip then True else isBlockedIP_loop ip cs)"

definition isBlockedIP :: "ruleManager \<Rightarrow> string \<Rightarrow> bool" where
  "isBlockedIP rm ip = isBlockedIP_loop ip (BlockedIPs (current rm))"

text \<open>
  \<open>headerAnomalyScore\<close> ranges over \<open>current.HeaderPatterns\<close> and reads \<open>headerRe[i]\<close>
  at the same index: an index beyond \<open>headerRe\<close> is a panic. A header that is missing
  from the map reads as the empty string.
\<close>

fun headerAnomalyScore_loop ::
  "Regexp option list \<Rightarrow> (string \<rightharpoonup> string) \<Rightarrow> nat \<Rightarrow> HeaderPattern list \<Rightarrow> real \<Rightarrow> panic + real"
where
  "headerAnomalyScore_loop res headers i [] score = Inr score"
| "headerAnomalyScore_loop res headers i (hp # hps) score =
     (if i \<ge> length res then Inl IndexOutOfRange
      else
        (case res ! i of
           None \<Rightarrow> headerAnomalyScore_loop res headers (Suc i) hps score
         | Some re \<Rightarrow>
             (let val = (case headers (Name hp) of None \<Rightarrow> [] | Some v \<Rightarrow> v)
              in if re val
                 then headerAnomalyScore_loop res headers (Suc i) hps (score + Weight hp)
                 else headerAnomalyScore_loop res headers (Suc i) hps score)))"

definition headerAnomalyScore :: "ruleManager \<Rightarrow> (string \<rightharpoonup> string) \<Rightarrow> panic + real" where
  "headerAnomalyScore rm headers =
     headerAnomalyScore_loop (headerRe rm) headers 0 (HeaderPatterns (current rm)) 0"

definition anomalyThreshold :: "ruleManager \<Rightarrow> real" where
  "anomalyThreshold rm = AnomalyThreshold (current rm)"

text \<open>The hardcoded default rules, and the rule manager as \<open>newRuleManager\<close> leaves it.\<close>

definition defaultRules :: RuleSet where
  "defaultRules =
     \<lparr>Version = 1,
      UpdatedAt = ''2026-02-06'',
      BlockedUAs =
        [''GPTBot'', ''ChatGPT-User'', ''OAI-SearchBot'',
         ''CCBot'',
         ''anthropic-ai'', ''ClaudeBot'', ''Claude-Web'',
         ''Meta-ExternalAgent'', ''Meta-ExternalFetcher'', ''FacebookBot'',
         ''facebookexternalhit'',
         ''PerplexityBot'',
         ''Bytespider'',
         ''Google-Extended'',
         ''Applebot-Extended'',
         ''cohere-ai'',
         ''Diffbot'',
         ''ImagesiftBot'',
         ''Omgilibot'',
         ''Omgili'',
         ''YouBot'',
         ''Amazonbot'',
         ''AI2Bot'', ''Ai2Bot-Dolma'',
         ''Scrapy'',
         ''PetalBot'',
         ''Semrushbot'',
         ''AhrefsBot'',
         ''MJ12bot'',
         ''DotBot'',
         ''Seekport'',
         ''BLEXBot'',
         ''DataForSeoBot'',
         ''magpie-crawler'',
         ''Timpibot'',
         ''Velenpublicwebcrawler'',
         ''Webzio-Extended'',
         ''iaskspider'',
         ''Kangaroo Bot'',
         ''img2dataset''],
      BlockedIPs =
        [''20.15.240.0/20'',
         ''20.171.206.0/23'',
         ''40.83.2.0/23'',
         ''52.230.152.0/21'',
         ''20.171.207.0/24''],
      HeaderPatterns =
        [\<lparr>Name = ''accept'',
          Pattern = [CHR ''^'', CHR 0x5C, CHR ''*'', CHR 0x5C, CHR ''/'', CHR 0x5C, CHR ''*'', CHR ''$''],
          Weight = 3 / 10\<rparr>,
         \<lparr>Name = ''accept-language'', Pattern = ''^$'', Weight = 5 / 10\<rparr>,
         \<lparr>Name = ''accept-encoding'', Pattern = ''^$'', Weight = 4 / 10\<rparr>],
      AnomalyThreshold = 7 / 10\<rparr>"

definition newRuleManager :: "(string \<Rightarrow> Regexp option) \<Rightarrow> string \<Rightarrow> string \<Rightarrow> ruleManager" where
  "newRuleManager compile url key =
     applyRules compile
       \<lparr>current = \<lparr>Version = 0, UpdatedAt = [], BlockedUAs = [], BlockedIPs = [],
                    HeaderPatterns = [], AnomalyThreshold = 0\<rparr>,
        uaLower = [], headerRe = [], apiURL = url, apiKey = key\<rparr>
       defaultRules"

text \<open>
  What \<open>regexp.Compile\<close> yields on the two patterns of the default rules: the first
  (a circumflex, three escaped characters \<open>*/*\<close>, a dollar) matches exactly the string
  \<open>*/*\<close>, and \<open>^$\<close> matches exactly the empty string. It is used to evaluate the
  default rules on concrete requests; no other pattern is needed for that.
\<close>

definition default_regexp :: "string \<Rightarrow> Regexp option" where
  "default_regexp p =
     (if p = [CHR ''^'', CHR 0x5C, CHR ''*'', CHR 0x5C, CHR ''/'', CHR 0x5C, CHR ''*'', CHR ''$'']
      then Some (\<lambda>s. s = ''*/*'')
      else if p = ''^$'' then Some (\<lambda>s. s = [])
      else None)"

section \<open>The telemetry client\<close>

record fingerprint =
  IP :: string
  UserAgent :: string
  HeaderOrder :: "string list"
  Headers :: "string \<rightharpoonup> string"
  Path :: string
  fp_Method :: string
  Ts :: int

record telemetryClient =
  buffer :: "fingerprint list"
  maxBuffer :: int
  enabled :: bool

text \<open>
  \<open>push\<close> returns the client and whether it started \<open>go tc.flush()\<close>. \<open>flush\<close> returns
  the client and the batch it takes out of the buffer to post to the ingest endpoint in
  one request (\<open>None\<close> when it returns early on an empty buffer). What happens to the
  request on the network is outside the model.
\<close>

definition push :: "telemetryClient \<Rightarrow> fingerprint \<Rightarrow> telemetryClient \<times> bool" where
  "push tc fp =
     (if \<not> enabled tc then (tc, False)
      else
        (let tc' = tc\<lparr>buffer := buffer tc @ [fp]\<rparr>;
             shouldFlush = (int (length (buffer tc')) \<ge> maxBuffer tc')
         in (tc', shouldFlush)))"

definition flush :: "telemetryClient \<Rightarrow> telemetryClient \<times> fingerprint list option" where
  "flush tc =
     (if length (buffer tc) = 0 then (tc, None)
      else
        (let batch = buffer tc
         in (tc\<lparr>buffer := []\<rparr>, Some batch)))"

text \<open>
  A run of \<open>push\<close> calls during which no flush runs (a flush that \<open>push\<close> starts is a
  goroutine of its own and need not have run yet): the client, and for each call
  whether it started a flush.
\<close>

fun push_all :: "telemetryClient \<Rightarrow> fingerprint list \<Rightarrow> telemetryClient \<times> bool list" where
  "push_all tc [] = (tc, [])"
| "push_all tc (fp # fps) =
     (let (tc', started) = push tc fp;
          (tc'', rest) = push_all tc' fps
      in (tc'', started # rest))"

text \<open>
  \<open>buildFingerprint\<close>: the loop over the header collects the lower-cased names and
  the joined values, then \<open>sort.Strings\<close> sorts the names (Go compares strings byte by
  byte, the order of \<open>string\<close> here). The time stamp is the clock in milliseconds.
\<close>

fun buildFingerprint_loop ::
  "(string \<times> string list) list \<Rightarrow> string list \<Rightarrow> (string \<rightharpoonup> string) \<Rightarrow> string list \<times> (string \<rightharpoonup> string)"
where
  "buildFingerprint_loop [] order headers = (order, headers)"
| "buildFingerprint_loop ((k, v) # h) order headers =
     (let lk = ToLower k
      in buildFingerprint_loop h (order @ [lk]) (headers(lk \<mapsto> Join v '', '')))"

definition buildFingerprint :: "int \<Rightarrow> Request \<Rightarrow> panic + fingerprint" where
  "buildFingerprint now r =
     (let (order, headers) = buildFingerprint_loop (Header r) [] Map.empty;
          order = sort order
      in case extractIP r of
           Inl e \<Rightarrow> Inl e
         | Inr ip \<Rightarrow>
             Inr \<lparr>IP = ip,
                  UserAgent = Header_Get (Header r) ''User-Agent'',
                  HeaderOrder = order,
                  Headers = headers,
                  Path = URL_Path r,
                  fp_Method = Method r,
                  Ts = now\<rparr>)"

section \<open>The detection engine (engine.go)\<close>

record Decision =
  Action :: string
  Reason :: string
  Confidence :: real

record Bbloker =
  rules :: ruleManager
  telemetry :: telemetryClient
  limiter :: rateLimiter

fun normalizeHeaders_loop :: "(string \<times> string list) list \<Rightarrow> (string \<rightharpoonup> string) \<Rightarrow> (string \<rightharpoonup> string)" where
  "normalizeHeaders_loop [] h = h"
| "normalizeHeaders_loop ((k, v) # rest) h =
     normalizeHeaders_loop rest (h(ToLower k \<mapsto> Join v '', ''))"

definition normalizeHeaders :: "Request \<Rightarrow> (string \<rightharpoonup> string)" where
  "normalizeHeaders r = normalizeHeaders_loop (Header r) Map.empty"

text \<open>
  \<open>Analyze\<close> returns the decision and the instance with the rate limiter as the call
  leaves it, or the panic that ends the call.
\<close>

definition Analyze :: "Bbloker \<Rightarrow> int \<Rightarrow> Request \<Rightarrow> panic + (Decision \<times> Bbloker)" where
  "Analyze b now r =
     (case extractIP r of
        Inl e \<Rightarrow> Inl e
      | Inr ip \<Rightarrow>
          (let ua = Header_Get (Header r) ''User-Agent'';
               headers = normalizeHeaders r
           in if isBlockedUA (rules b) ua
              then Inr (\<lparr>Action = ''block'', Reason = ''known_bot_ua'', Confidence = 95 / 100\<rparr>, b)
              else if isBlockedIP (rules b) ip
              then Inr (\<lparr>Action = ''block'', Reason = ''known_bot_ip'', Confidence = 90 / 100\<rparr>, b)
              else
                (let (exceeded, lim) = isExceeded (limiter b) now ip;
                     b' = b\<lparr>limiter := lim\<rparr>
                 in if exceeded
                    then Inr (\<lparr>Action = ''block'', Reason = ''rate_limit'', Confidence = 70 / 100\<rparr>, b')
                    else
                      (case headerAnomalyScore (rules b') headers of
                         Inl e \<Rightarrow> Inl e
                       | Inr score \<Rightarrow>
                           if score > anomalyThreshold (rules b')
                           then Inr (\<lparr>Action = ''block'', Reason = ''header_anomaly'', Confidence = score\<rparr>, b')
                           else Inr (\<lparr>Action = ''allow'', Reason = [], Confidence = 0\<rparr>, b')))))"

section \<open>Properties of the address functions\<close>

declare SkipSpace.simps [simp del]
declare dec.simps [simp del]
declare TrimLeft.simps [simp del]
declare TrimRight_rev.simps [simp del]

lemma byte_char_of: "n < 256 \<Longrightarrow> byte (char_of n) = n"
  by (simp add: byte_def)

lemma dec_digits: "list_all is_digit (dec n)"
proof (induction n rule: dec.induct)
  case (1 n)
  show ?case
  proof (cases "n < 10")
    case True
    then show ?thesis by (subst dec.simps) (simp add: is_digit_def byte_def)
  next
    case False
    have "n mod 10 < 10" by simp
    then have "is_digit (char_of (48 + n mod 10))"
      by (simp add: is_digit_def byte_def)
    with False 1 show ?thesis by (subst dec.simps) simp
  qed
qed

lemma dec_nonempty: "dec n \<noteq> []"
  by (subst dec.simps) simp

lemma digits_val_snoc: "digits_val (ds @ [c]) = 10 * digits_val ds + (byte c - 48)"
  by (simp add: digits_val_def)

lemma digits_val_dec: "digits_val (dec n) = n"
proof (induction n rule: dec.induct)
  case (1 n)
  show ?case
  proof (cases "n < 10")
    case True
    then show ?thesis by (subst dec.simps) (simp add: digits_val_def byte_def)
  next
    case False
    have "n mod 10 < 10" by simp
    then have "byte (char_of (48 + n mod 10)) - 48 = n mod 10"
      by (simp add: byte_def)
    with False 1 show ?thesis by (subst dec.simps) (simp add: digits_val_snoc)
  qed
qed

lemma is_digit_not_space: "is_digit c \<Longrightarrow> space_rune_len (c # cs) = 0"
  by (auto simp: is_digit_def space_rune_len_def split: list.splits)

lemma is_digit_facts: "is_digit c \<Longrightarrow> c \<noteq> CHR 0x0A \<and> c \<noteq> CHR ''-'' \<and> c \<noteq> CHR ''+'' \<and> c \<noteq> CHR ''.'' \<and> c \<noteq> CHR ''/''"
  by (auto simp: is_digit_def byte_def)

lemma Sscanf_d_digits:
  assumes "ds \<noteq> []" "list_all is_digit ds" "digits_val ds < 2 ^ 63"
  shows "Sscanf_d ds = int (digits_val ds)"
proof -
  obtain c cs where ds: "ds = c # cs" using assms(1) by (cases ds) auto
  with assms(2) have c: "is_digit c" by simp
  have sk: "SkipSpace ds = Some ds"
    using is_digit_not_space[OF c] is_digit_facts[OF c] ds
    by (subst SkipSpace.simps) simp
  have tw: "takeWhile is_digit ds = ds"
    using assms(2) by (simp add: list_all_iff)
  have hd: "hd ds \<noteq> CHR ''-''" "hd ds \<noteq> CHR ''+''"
    using is_digit_facts[OF c] ds by simp_all
  show ?thesis
    unfolding Sscanf_d_def sk
    using assms(1,3) hd by (simp add: Let_def tw)
qed

lemma Sscanf_d_dec: "n < 2 ^ 63 \<Longrightarrow> Sscanf_d (dec n) = int n"
  using Sscanf_d_digits[OF dec_nonempty dec_digits, of n] by (simp add: digits_val_dec)


lemma takeWhile_sep: "sep \<notin> set a \<Longrightarrow> takeWhile (\<lambda>c. c \<noteq> sep) (a @ sep # r) = a"
  by (induction a) auto

lemma dropWhile_sep: "sep \<notin> set a \<Longrightarrow> dropWhile (\<lambda>c. c \<noteq> sep) (a @ sep # r) = sep # r"
  by (induction a) auto

lemma split_step:
  "sep \<notin> set a \<Longrightarrow> SplitN (a @ sep # r) sep (Suc (Suc k)) = a # SplitN r sep (Suc k)"
  by (simp add: takeWhile_sep dropWhile_sep)

lemma SplitN_2_sep:
  "sep \<notin> set a \<Longrightarrow> SplitN (a @ sep # r) sep 2 = [a, r]"
  by (simp add: numeral_2_eq_2 takeWhile_sep dropWhile_sep)

lemma dec_no_dot: "CHR ''.'' \<notin> set (dec n)"
  using dec_digits[of n] is_digit_facts by (auto simp: list_all_iff)

lemma dec_no_slash: "CHR ''/'' \<notin> set (dec n)"
  using dec_digits[of n] is_digit_facts by (auto simp: list_all_iff)

lemma SplitN_quad: "SplitN (quad a b c d) (CHR ''.'') 4 = [dec a, dec b, dec c, dec d]"
proof -
  have "SplitN (dec a @ CHR ''.'' # dec b @ CHR ''.'' # dec c @ CHR ''.'' # dec d) (CHR ''.'') (Suc (Suc (Suc (Suc 0))))
      = [dec a, dec b, dec c, dec d]"
    by (simp only: split_step[OF dec_no_dot] SplitN.simps(2))
  then show ?thesis by (simp add: quad_def eval_nat_numeral)
qed

lemma quad_no_slash: "CHR ''/'' \<notin> set (quad a b c d)"
  using dec_no_slash by (simp add: quad_def)


lemma small_nat_high_bit: "d < 2 ^ k \<Longrightarrow> k \<le> n \<Longrightarrow> \<not> bit (d :: nat) n"
proof -
  assume d: "d < 2 ^ k" and kn: "k \<le> n"
  have "bit d n = bit (take_bit k d) n" using d by (simp add: take_bit_nat_eq_self)
  also have "\<dots> = (n < k \<and> bit d n)" by (simp add: bit_take_bit_iff)
  finally show ?thesis using kn by simp
qed

lemma octet_step:
  assumes "d < 256"
  shows "push_bit 8 (w :: 32 word) OR word_of_nat d = w * 2 ^ 8 + word_of_nat d"
proof -
  have d: "d < 2 ^ 8" using assms by simp
  have "push_bit 8 w + word_of_nat d = push_bit 8 w OR (word_of_nat d :: 32 word)"
  proof (rule disjunctive_add)
    fix n
    show "\<not> bit (push_bit 8 w) n \<or> \<not> bit (word_of_nat d :: 32 word) n"
      using small_nat_high_bit[OF d, of n] by (auto simp: bit_simps)
  qed
  then show ?thesis by (simp add: push_bit_eq_mult)
qed

lemma ipToUint32_quad:
  assumes "a < 256" "b < 256" "c < 256" "d < 256"
  shows "ipToUint32 (quad a b c d) = ip32 a b c d"
proof -
  have s: "Sscanf_d (dec a) = int a" "Sscanf_d (dec b) = int b"
    "Sscanf_d (dec c) = int c" "Sscanf_d (dec d) = int d"
    using assms by (simp_all add: Sscanf_d_dec)
  have "ipToUint32 (quad a b c d) =
      push_bit 8 (push_bit 8 (push_bit 8 (push_bit 8 0 OR word_of_nat a) OR word_of_nat b) OR word_of_nat c) OR word_of_nat d"
    using assms by (simp add: ipToUint32_def SplitN_quad s Let_def)
  also have "\<dots> = ip32 a b c d"
    using assms by (simp add: octet_step ip32_def algebra_simps)
  finally show ?thesis .
qed

lemma mask_top_bits:
  assumes "n \<le> 32"
  shows "(w AND push_bit (32 - n) (0xFFFFFFFF :: 32 word)) = (w' AND push_bit (32 - n) 0xFFFFFFFF)
         \<longleftrightarrow> top_bits n w = top_bits n w'"
proof -
  have m: "(0xFFFFFFFF :: 32 word) = - 1" by simp
  have l: "(w AND push_bit k (- 1)) = push_bit k (drop_bit k w)" for w :: "32 word" and k
    by (rule bit_eqI) (auto simp: bit_simps)
  have "(push_bit k (drop_bit k w) = push_bit k (drop_bit k w')) = (drop_bit k w = drop_bit k w')" for k
  proof
    assume "push_bit k (drop_bit k w) = push_bit k (drop_bit k w')"
    then have "drop_bit k (push_bit k (drop_bit k w)) = drop_bit k (push_bit k (drop_bit k w'))" by simp
    then show "drop_bit k w = drop_bit k w'"
      using bit_imp_le_length[of w] bit_imp_le_length[of w']
      by (simp add: drop_bit_push_bit bit_eq_iff bit_simps) blast
  qed simp
  then show ?thesis unfolding m l top_bits_def by simp
qed


lemmas scan_eval = Sscanf_d_def SkipSpace.simps space_rune_len_def byte_def is_digit_def
  digits_val_def Let_def

lemmas ip_eval = ipToUint32_def eval_nat_numeral scan_eval

text \<open>
  Claim C1, as the code has it. For dotted quads \<open>a.b.c.d\<close> and \<open>x\<close> written in
  decimal with octets in 0..255, and a prefix length \<open>n\<close> in 0..32,
  \<open>cidrContains(a.b.c.d/n, x)\<close> is true exactly when neither address is 0 as a 32-bit
  integer and the top \<open>n\<close> bits of the two integers agree. An address that converts to 0
  (\<open>0.0.0.0\<close>) never matches, because 0 is what \<open>ipToUint32\<close> returns for an address it
  rejects.
\<close>

theorem cidrContains_quads:
  assumes "a < 256" "b < 256" "c < 256" "d < 256"
    and "x1 < 256" "x2 < 256" "x3 < 256" "x4 < 256"
    and "n \<le> 32"
  shows "cidrContains (quad a b c d @ ''/'' @ dec n) (quad x1 x2 x3 x4) \<longleftrightarrow>
           ip32 a b c d \<noteq> 0 \<and> ip32 x1 x2 x3 x4 \<noteq> 0 \<and>
           top_bits n (ip32 a b c d) = top_bits n (ip32 x1 x2 x3 x4)"
proof -
  have sp: "SplitN (quad a b c d @ ''/'' @ dec n) (CHR ''/'') 2 = [quad a b c d, dec n]"
    using SplitN_2_sep[OF quad_no_slash] by simp
  have n: "Sscanf_d (dec n) = int n"
    using assms(9) by (simp add: Sscanf_d_dec)
  have nn: "nat (32 - int n) = 32 - n" using assms(9) by simp
  show ?thesis
    unfolding cidrContains_def sp Let_def
    using assms mask_top_bits[OF assms(9), of "ip32 a b c d" "ip32 x1 x2 x3 x4"]
    by (simp add: ipToUint32_quad n nn)
qed

lemma dec_20: "dec 20 = ''20''" "dec 15 = ''15''" "dec 240 = ''240''" "dec 0 = ''0''" "dec 5 = ''5''"
  by code_simp+

theorem cidrContains_quads_witness:
  "quad 20 15 240 0 @ ''/'' @ dec 20 = ''20.15.240.0/20'' \<and> quad 20 15 240 5 = ''20.15.240.5'' \<and>
   cidrContains (quad 20 15 240 0 @ ''/'' @ dec 20) (quad 20 15 240 5)"
proof -
  have "top_bits 20 (ip32 20 15 240 0) = top_bits 20 (ip32 20 15 240 5)"
    by (simp add: top_bits_def ip32_def drop_bit_eq_div)
  moreover have "ip32 20 15 240 0 \<noteq> 0" "ip32 20 15 240 5 \<noteq> 0"
    by (simp_all add: ip32_def)
  ultimately have "cidrContains (quad 20 15 240 0 @ ''/'' @ dec 20) (quad 20 15 240 5)"
    using cidrContains_quads[of 20 15 240 0 20 15 240 5 20] by simp
  then show ?thesis by (simp add: quad_def dec_20)
qed

lemma ip_0000: "ipToUint32 ''0.0.0.0'' = 0"
  by (simp add: ip_eval)

lemma ip_123x: "ipToUint32 ''1.2.3.x'' = 0x01020300"
  by (simp add: ip_eval)

lemma ip_1230: "ipToUint32 ''1.2.3.0'' = 0x01020300"
  by (simp add: ip_eval)

lemma ip_9999: "ipToUint32 ''9.9.9.9'' = 0x09090909"
  by (simp add: ip_eval)

lemma ip_1234: "ipToUint32 ''1.2.3.4'' = 0x01020304"
  by (simp add: ip_eval)

lemma split_cidr:
  "SplitN ''0.0.0.0/0'' (CHR ''/'') 2 = [''0.0.0.0'', ''0'']"
  "SplitN ''1.2.3.0/24'' (CHR ''/'') 2 = [''1.2.3.0'', ''24'']"
  "SplitN ''1.2.3.x/24'' (CHR ''/'') 2 = [''1.2.3.x'', ''24'']"
  "SplitN ''1.2.3.4/abc'' (CHR ''/'') 2 = [''1.2.3.4'', ''abc'']"
  by (simp_all add: numeral_2_eq_2)

lemma scan_pfx: "Sscanf_d ''24'' = 24" "Sscanf_d ''abc'' = 0" "Sscanf_d ''0'' = 0"
  by (simp_all add: scan_eval)

text \<open>
  Claim C1 as stated fails in both halves: \<open>0.0.0.0/0\<close> does not contain \<open>9.9.9.9\<close>
  although the top 0 bits agree, and \<open>1.2.3.0/24\<close> contains \<open>1.2.3.x\<close>, which is no
  dotted quad (the octet that does not scan is read as 0).
\<close>

theorem cidrContains_counterexample:
  "\<not> (cidrContains ''0.0.0.0/0'' ''9.9.9.9'' \<longleftrightarrow>
        top_bits 0 (ip32 0 0 0 0) = top_bits 0 (ip32 9 9 9 9)) \<and>
   cidrContains ''1.2.3.0/24'' ''1.2.3.x''"
proof -
  have "\<not> cidrContains ''0.0.0.0/0'' ''9.9.9.9''"
    by (simp add: cidrContains_def split_cidr ip_0000)
  moreover have "top_bits 0 (ip32 0 0 0 0) = top_bits 0 (ip32 9 9 9 9)"
    by (simp add: top_bits_def)
  moreover have "cidrContains ''1.2.3.0/24'' ''1.2.3.x''"
    by (simp add: cidrContains_def split_cidr ip_123x ip_1230 scan_pfx)
  ultimately show ?thesis by simp
qed

text \<open>
  Claim C3 (a malformed blocked-IP entry never matches) fails on the code: the entry
  \<open>1.2.3.4/abc\<close>, whose prefix length is not a number, contains \<open>9.9.9.9\<close> (the prefix
  is read as 0, so the mask is 0), and the entry \<open>1.2.3.x/24\<close>, whose base address is
  no dotted quad, contains \<open>1.2.3.0\<close>.
\<close>

theorem cidrContains_malformed_entry:
  "cidrContains ''1.2.3.4/abc'' ''9.9.9.9'' \<and> cidrContains ''1.2.3.x/24'' ''1.2.3.0''"
proof -
  have "cidrContains ''1.2.3.4/abc'' ''9.9.9.9''"
    by (simp add: cidrContains_def split_cidr ip_1234 ip_9999 scan_pfx)
  moreover have "cidrContains ''1.2.3.x/24'' ''1.2.3.0''"
    by (simp add: cidrContains_def split_cidr ip_123x ip_1230 scan_pfx)
  ultimately show ?thesis by simp
qed

end
